theory Spec2Isabelle
  imports Complex_Main
begin

section \<open>Numbers\<close>

text \<open>
  Every scalar of the library is a JavaScript number that is stored in a
  \<^verbatim>\<open>Float32Array\<close>.  The embedding keeps the special values of IEEE-754 (NaN and the
  two infinities) and takes every finite value as an exact real: rounding (to double
  in an operation, to single precision when a value is stored), overflow of finite
  values and the sign of zero are not modelled.  A finite value is \<open>Fin r\<close>.
\<close>

datatype jsnum = NaN | PInf | NInf | Fin real

fun jsnum_neg :: "jsnum \<Rightarrow> jsnum" where
  "jsnum_neg NaN = NaN"
| "jsnum_neg PInf = NInf"
| "jsnum_neg NInf = PInf"
| "jsnum_neg (Fin a) = Fin (- a)"

fun jsnum_add :: "jsnum \<Rightarrow> jsnum \<Rightarrow> jsnum" where
  "jsnum_add (Fin a) (Fin b) = Fin (a + b)"
| "jsnum_add NaN _ = NaN"
| "jsnum_add _ NaN = NaN"
| "jsnum_add PInf NInf = NaN"
| "jsnum_add NInf PInf = NaN"
| "jsnum_add PInf _ = PInf"
| "jsnum_add _ PInf = PInf"
| "jsnum_add NInf _ = NInf"
| "jsnum_add _ NInf = NInf"

text \<open>The sign of an infinite product or quotient: \<open>inf_of True\<close> is \<open>+Infinity\<close>.\<close>

fun inf_of :: "bool \<Rightarrow> jsnum" where
  "inf_of True = PInf"
| "inf_of False = NInf"

fun jsnum_mul :: "jsnum \<Rightarrow> jsnum \<Rightarrow> jsnum" where
  "jsnum_mul (Fin a) (Fin b) = Fin (a * b)"
| "jsnum_mul NaN _ = NaN"
| "jsnum_mul _ NaN = NaN"
| "jsnum_mul PInf PInf = PInf"
| "jsnum_mul PInf NInf = NInf"
| "jsnum_mul NInf PInf = NInf"
| "jsnum_mul NInf NInf = PInf"
| "jsnum_mul PInf (Fin b) = (if b = 0 then NaN else inf_of (0 < b))"
| "jsnum_mul NInf (Fin b) = (if b = 0 then NaN else inf_of (b < 0))"
| "jsnum_mul (Fin a) PInf = (if a = 0 then NaN else inf_of (0 < a))"
| "jsnum_mul (Fin a) NInf = (if a = 0 then NaN else inf_of (a < 0))"

text \<open>
  Division by a finite zero gives an infinity (NaN for \<open>0 / 0\<close>); the zero of the
  model is the positive zero.
\<close>

fun jsnum_div :: "jsnum \<Rightarrow> jsnum \<Rightarrow> jsnum" where
  "jsnum_div (Fin a) (Fin b) =
     (if b \<noteq> 0 then Fin (a / b) else if a = 0 then NaN else inf_of (0 < a))"
| "jsnum_div NaN _ = NaN"
| "jsnum_div _ NaN = NaN"
| "jsnum_div (Fin a) PInf = Fin 0"
| "jsnum_div (Fin a) NInf = Fin 0"
| "jsnum_div PInf (Fin b) = inf_of (0 \<le> b)"
| "jsnum_div NInf (Fin b) = inf_of (b < 0)"
| "jsnum_div PInf PInf = NaN"
| "jsnum_div PInf NInf = NaN"
| "jsnum_div NInf PInf = NaN"
| "jsnum_div NInf NInf = NaN"

instantiation jsnum :: "{plus, minus, uminus, times, inverse}"
begin

definition plus_jsnum :: "jsnum \<Rightarrow> jsnum \<Rightarrow> jsnum" where
  "plus_jsnum = jsnum_add"

definition uminus_jsnum :: "jsnum \<Rightarrow> jsnum" where
  "uminus_jsnum = jsnum_neg"

definition minus_jsnum :: "jsnum \<Rightarrow> jsnum \<Rightarrow> jsnum" where
  "minus_jsnum a b = jsnum_add a (jsnum_neg b)"

definition times_jsnum :: "jsnum \<Rightarrow> jsnum \<Rightarrow> jsnum" where
  "times_jsnum = jsnum_mul"

definition divide_jsnum :: "jsnum \<Rightarrow> jsnum \<Rightarrow> jsnum" where
  "divide_jsnum = jsnum_div"

definition inverse_jsnum :: "jsnum \<Rightarrow> jsnum" where
  "inverse_jsnum a = jsnum_div (Fin 1) a"

instance ..

end

text \<open>The comparison \<^verbatim>\<open><\<close> and the strict equality \<^verbatim>\<open>===\<close>: both are false on NaN.\<close>

fun js_lt :: "jsnum \<Rightarrow> jsnum \<Rightarrow> bool" where
  "js_lt (Fin a) (Fin b) = (a < b)"
| "js_lt NaN _ = False"
| "js_lt _ NaN = False"
| "js_lt NInf NInf = False"
| "js_lt NInf _ = True"
| "js_lt _ NInf = False"
| "js_lt PInf _ = False"
| "js_lt _ PInf = True"

definition js_seq :: "jsnum \<Rightarrow> jsnum \<Rightarrow> bool" where
  "js_seq a b = (a \<noteq> NaN \<and> a = b)"

fun isFinite :: "jsnum \<Rightarrow> bool" where
  "isFinite (Fin a) = True"
| "isFinite _ = False"

fun isNaN :: "jsnum \<Rightarrow> bool" where
  "isNaN NaN = True"
| "isNaN _ = False"

fun isInfinity :: "jsnum \<Rightarrow> bool" where
  "isInfinity PInf = True"
| "isInfinity NInf = True"
| "isInfinity _ = False"

subsection \<open>The functions of \<^verbatim>\<open>Math\<close>\<close>

fun Math_sqrt :: "jsnum \<Rightarrow> jsnum" where
  "Math_sqrt (Fin a) = (if a < 0 then NaN else Fin (sqrt a))"
| "Math_sqrt PInf = PInf"
| "Math_sqrt _ = NaN"

fun Math_sin :: "jsnum \<Rightarrow> jsnum" where
  "Math_sin (Fin a) = Fin (sin a)"
| "Math_sin _ = NaN"

fun Math_cos :: "jsnum \<Rightarrow> jsnum" where
  "Math_cos (Fin a) = Fin (cos a)"
| "Math_cos _ = NaN"

text \<open>
  No double is an odd multiple of \<open>\<pi>/2\<close>, so \<^verbatim>\<open>Math.tan\<close> never meets a pole; on the
  exact reals of the model a pole gives \<open>+Infinity\<close>.
\<close>

fun Math_tan :: "jsnum \<Rightarrow> jsnum" where
  "Math_tan (Fin a) = (if cos a = 0 then PInf else Fin (tan a))"
| "Math_tan _ = NaN"

fun Math_acos :: "jsnum \<Rightarrow> jsnum" where
  "Math_acos (Fin a) = (if - 1 \<le> a \<and> a \<le> 1 then Fin (arccos a) else NaN)"
| "Math_acos _ = NaN"

section \<open>Vectors\<close>

text \<open>
  A vector holds a \<^verbatim>\<open>Float32Array\<close> of its components; the constructor of the
  datatype is the constructor of the class, the selectors are its getters.
\<close>

datatype Float32Vector2 = Float32Vector2 (v2_x: jsnum) (v2_y: jsnum)

datatype Float32Vector3 = Float32Vector3 (v3_x: jsnum) (v3_y: jsnum) (v3_z: jsnum)

datatype Float32Vector4 = Float32Vector4 (v4_x: jsnum) (v4_y: jsnum) (v4_z: jsnum) (v4_w: jsnum)

fun Float32Vector2_values :: "Float32Vector2 \<Rightarrow> jsnum list" where
  "Float32Vector2_values (Float32Vector2 x y) = [x, y]"

fun Float32Vector3_values :: "Float32Vector3 \<Rightarrow> jsnum list" where
  "Float32Vector3_values (Float32Vector3 x y z) = [x, y, z]"

fun Float32Vector4_values :: "Float32Vector4 \<Rightarrow> jsnum list" where
  "Float32Vector4_values (Float32Vector4 x y z w) = [x, y, z, w]"

text \<open>\<^verbatim>\<open>VectorBase.magnitude\<close>: the \<^verbatim>\<open>reduce\<close> over the components, from 0.\<close>

definition VectorBase_magnitude :: "jsnum list \<Rightarrow> jsnum" where
  "VectorBase_magnitude vals =
     (let sumSq = foldl (\<lambda>prev current. prev + (current * current)) (Fin 0) vals
      in Math_sqrt sumSq)"

definition Float32Vector3_magnitude :: "Float32Vector3 \<Rightarrow> jsnum" where
  "Float32Vector3_magnitude v = VectorBase_magnitude (Float32Vector3_values v)"

definition Float32Vector3_add :: "Float32Vector3 \<Rightarrow> Float32Vector3 \<Rightarrow> Float32Vector3" where
  "Float32Vector3_add this other =
     Float32Vector3 (v3_x this + v3_x other) (v3_y this + v3_y other) (v3_z this + v3_z other)"

definition Float32Vector3_sub :: "Float32Vector3 \<Rightarrow> Float32Vector3 \<Rightarrow> Float32Vector3" where
  "Float32Vector3_sub this other =
     Float32Vector3 (v3_x this - v3_x other) (v3_y this - v3_y other) (v3_z this - v3_z other)"

definition Float32Vector3_mulByScalar :: "Float32Vector3 \<Rightarrow> jsnum \<Rightarrow> Float32Vector3" where
  "Float32Vector3_mulByScalar this scalar =
     Float32Vector3 (v3_x this * scalar) (v3_y this * scalar) (v3_z this * scalar)"

definition Float32Vector3_dot :: "Float32Vector3 \<Rightarrow> Float32Vector3 \<Rightarrow> jsnum" where
  "Float32Vector3_dot this other =
     v3_x this * v3_x other + v3_y this * v3_y other + v3_z this * v3_z other"

definition Float32Vector3_cross :: "Float32Vector3 \<Rightarrow> Float32Vector3 \<Rightarrow> Float32Vector3" where
  "Float32Vector3_cross this other =
     (let cx = v3_y this * v3_z other - v3_z this * v3_y other;
          cy = v3_z this * v3_x other - v3_x this * v3_z other;
          cz = v3_x this * v3_y other - v3_y this * v3_x other
      in Float32Vector3 cx cy cz)"

definition Float32Vector3_normalize :: "Float32Vector3 \<Rightarrow> Float32Vector3" where
  "Float32Vector3_normalize this =
     (let mag = Float32Vector3_magnitude this
      in if js_seq mag (Fin 0) then this
         else Float32Vector3 (v3_x this / mag) (v3_y this / mag) (v3_z this / mag))"

definition Float32Vector3_xy :: "Float32Vector3 \<Rightarrow> Float32Vector2" where
  "Float32Vector3_xy this = Float32Vector2 (v3_x this) (v3_y this)"

definition Float32Vector3_hom2cart :: "Float32Vector3 \<Rightarrow> Float32Vector2" where
  "Float32Vector3_hom2cart this = Float32Vector2 (v3_x this / v3_z this) (v3_y this / v3_z this)"

definition Float32Vector4_xyz :: "Float32Vector4 \<Rightarrow> Float32Vector3" where
  "Float32Vector4_xyz this = Float32Vector3 (v4_x this) (v4_y this) (v4_z this)"

definition Float32Vector4_hom2cart :: "Float32Vector4 \<Rightarrow> Float32Vector3" where
  "Float32Vector4_hom2cart this =
     Float32Vector3 (v4_x this / v4_w this) (v4_y this / v4_w this) (v4_z this / v4_w this)"

section \<open>Quaternions\<close>

datatype Quaternion = Quaternion (qx: jsnum) (qy: jsnum) (qz: jsnum) (qw: jsnum)

fun Quaternion_values :: "Quaternion \<Rightarrow> jsnum list" where
  "Quaternion_values (Quaternion x y z w) = [x, y, z, w]"

definition Quaternion_magnitude :: "Quaternion \<Rightarrow> jsnum" where
  "Quaternion_magnitude this =
     Math_sqrt (qx this * qx this + qy this * qy this + qz this * qz this + qw this * qw this)"

definition Quaternion_normalize :: "Quaternion \<Rightarrow> Quaternion" where
  "Quaternion_normalize this =
     (let mag = Quaternion_magnitude this
      in if js_seq mag (Fin 0) then this
         else (let r = Fin 1 / mag
               in Quaternion (qx this * r) (qy this * r) (qz this * r) (qw this * r)))"

definition Quaternion_add :: "Quaternion \<Rightarrow> Quaternion \<Rightarrow> Quaternion" where
  "Quaternion_add this other =
     Quaternion (qx this + qx other) (qy this + qy other) (qz this + qz other)
       (qw this + qw other)"

definition Quaternion_mulByScalar :: "Quaternion \<Rightarrow> jsnum \<Rightarrow> Quaternion" where
  "Quaternion_mulByScalar this scalar =
     Quaternion (qx this * scalar) (qy this * scalar) (qz this * scalar) (qw this * scalar)"

definition Quaternion_dot :: "Quaternion \<Rightarrow> Quaternion \<Rightarrow> jsnum" where
  "Quaternion_dot this other =
     qx this * qx other + qy this * qy other + qz this * qz other + qw this * qw other"

text \<open>
  The third argument of \<^verbatim>\<open>slerp\<close> is optional: \<open>None\<close> is the call without it, which
  takes the default \<^verbatim>\<open>{ chooseShorterAngle: true }\<close>.  The two \<^verbatim>\<open>let\<close> variables
  assigned in the branch are the pair of the conditional.
\<close>

record SlerpOptions =
  chooseShorterAngle :: bool

definition Quaternion_slerp ::
  "Quaternion \<Rightarrow> Quaternion \<Rightarrow> jsnum \<Rightarrow> SlerpOptions option \<Rightarrow> Quaternion" where
  "Quaternion_slerp this other t options_arg =
     (let options = (case options_arg of
                       None \<Rightarrow> \<lparr>chooseShorterAngle = True\<rparr>
                     | Some given \<Rightarrow> given);
          dotProd0 = Quaternion_dot this other;
          (dotProd, otherQuaternion) =
             (if js_lt dotProd0 (Fin 0)
              then (- dotProd0, Quaternion_mulByScalar other (- Fin 1))
              else (dotProd0, other));
          omega = Math_acos dotProd;
          sinOmega = Math_sin omega;
          q1 = Quaternion_mulByScalar this (Math_sin ((Fin 1 - t) * omega) / sinOmega);
          q2 = Quaternion_mulByScalar otherQuaternion (Math_sin (t * omega) / sinOmega)
      in Quaternion_add q1 q2)"


section \<open>Matrices\<close>

text \<open>
  A matrix holds a \<^verbatim>\<open>Float32Array\<close> of its entries in column-major order.  The
  constructor of each datatype takes its arguments in the order of the constructor of
  the class (\<open>m11, m21, ...\<close>: the first column first); the destructuring of
  \<^verbatim>\<open>this.values\<close> in the methods is the pattern on that constructor.
\<close>

datatype Matrix2x2 = Matrix2x2 jsnum jsnum jsnum jsnum

datatype Matrix3x3 = Matrix3x3 jsnum jsnum jsnum jsnum jsnum jsnum jsnum jsnum jsnum

datatype Matrix4x4 =
  Matrix4x4 jsnum jsnum jsnum jsnum jsnum jsnum jsnum jsnum
            jsnum jsnum jsnum jsnum jsnum jsnum jsnum jsnum

fun Matrix2x2_values :: "Matrix2x2 \<Rightarrow> jsnum list" where
  "Matrix2x2_values (Matrix2x2 m11 m21 m12 m22) = [m11, m21, m12, m22]"

fun Matrix3x3_values :: "Matrix3x3 \<Rightarrow> jsnum list" where
  "Matrix3x3_values (Matrix3x3 m11 m21 m31 m12 m22 m32 m13 m23 m33) =
     [m11, m21, m31, m12, m22, m32, m13, m23, m33]"

fun Matrix4x4_values :: "Matrix4x4 \<Rightarrow> jsnum list" where
  "Matrix4x4_values
     (Matrix4x4 m11 m21 m31 m41 m12 m22 m32 m42 m13 m23 m33 m43 m14 m24 m34 m44) =
     [m11, m21, m31, m41, m12, m22, m32, m42, m13, m23, m33, m43, m14, m24, m34, m44]"

text \<open>
  Rows and columns of a 4x4 matrix, read from the stored values: index
  \<open>col * 4 + row\<close> holds the entry of row \<open>row\<close> and column \<open>col\<close> (both from 0).
\<close>

definition Matrix4x4_row :: "Matrix4x4 \<Rightarrow> nat \<Rightarrow> jsnum list" where
  "Matrix4x4_row m row = map (\<lambda>col. Matrix4x4_values m ! (col * 4 + row)) [0, 1, 2, 3]"

definition Matrix4x4_column :: "Matrix4x4 \<Rightarrow> nat \<Rightarrow> jsnum list" where
  "Matrix4x4_column m col = map (\<lambda>row. Matrix4x4_values m ! (col * 4 + row)) [0, 1, 2, 3]"

subsection \<open>Matrix2x2\<close>

definition Matrix2x2_identity :: Matrix2x2 where
  "Matrix2x2_identity = Matrix2x2 (Fin 1) (Fin 0) (Fin 0) (Fin 1)"

subsection \<open>Matrix3x3\<close>

definition Matrix3x3_identity :: Matrix3x3 where
  "Matrix3x3_identity =
     Matrix3x3 (Fin 1) (Fin 0) (Fin 0) (Fin 0) (Fin 1) (Fin 0) (Fin 0) (Fin 0) (Fin 1)"

definition Matrix3x3_translation :: "jsnum \<Rightarrow> jsnum \<Rightarrow> Matrix3x3" where
  "Matrix3x3_translation tx ty =
     Matrix3x3 (Fin 1) (Fin 0) (Fin 0) (Fin 0) (Fin 1) (Fin 0) tx ty (Fin 1)"

definition Matrix3x3_scaling :: "jsnum \<Rightarrow> jsnum \<Rightarrow> Matrix3x3" where
  "Matrix3x3_scaling sx sy =
     Matrix3x3 sx (Fin 0) (Fin 0) (Fin 0) sy (Fin 0) (Fin 0) (Fin 0) (Fin 1)"

definition Matrix3x3_rotation :: "jsnum \<Rightarrow> Matrix3x3" where
  "Matrix3x3_rotation radian =
     (let sin = Math_sin radian;
          cos = Math_cos radian
      in Matrix3x3 cos sin (Fin 0) (- sin) cos (Fin 0) (Fin 0) (Fin 0) (Fin 1))"

definition Matrix3x3_projectiveTransform ::
  "jsnum \<Rightarrow> jsnum \<Rightarrow> jsnum \<Rightarrow> jsnum \<Rightarrow> jsnum \<Rightarrow> jsnum \<Rightarrow> jsnum \<Rightarrow> jsnum \<Rightarrow> Matrix3x3" where
  "Matrix3x3_projectiveTransform x1 y1 x2 y2 x3 y3 x4 y4 =
     (let x2d = x2 - x1;
          y2d = y2 - y1;
          x3d = x3 - x1;
          y3d = y3 - y1;
          x4d = x4 - x1;
          y4d = y4 - y1;
          d123 = x2d * y3d - x3d * y2d;
          d124 = x2d * y4d - x4d * y2d;
          d134 = x3d * y4d - x4d * y3d;
          d1234 = d123 + d134;
          d234 = d1234 - d124;
          a1 = d134 * x2d;
          b1 = d123 * x4d;
          a2 = d134 * y2d;
          b2 = d123 * y4d;
          a0 = d134 - d234;
          b0 = d123 - d234;
          c0 = d234
      in Matrix3x3 (x1 * a0 + a1) (y1 * a0 + a2) a0
                   (x1 * b0 + b1) (y1 * b0 + b2) b0
                   (x1 * c0) (y1 * c0) c0)"

definition Matrix3x3_projectiveInvTransform ::
  "jsnum \<Rightarrow> jsnum \<Rightarrow> jsnum \<Rightarrow> jsnum \<Rightarrow> jsnum \<Rightarrow> jsnum \<Rightarrow> jsnum \<Rightarrow> jsnum \<Rightarrow> Matrix3x3" where
  "Matrix3x3_projectiveInvTransform x1 y1 x2 y2 x3 y3 x4 y4 =
     (let x2d = x2 - x1;
          y2d = y2 - y1;
          x3d = x3 - x1;
          y3d = y3 - y1;
          x4d = x4 - x1;
          y4d = y4 - y1;
          d123 = x2d * y3d - x3d * y2d;
          d124 = x2d * y4d - x4d * y2d;
          d134 = x3d * y4d - x4d * y3d;
          d1234 = d123 + d134;
          d234 = d1234 - d124;
          d11 = d123 - d124;
          d22 = d134 - d124;
          a1 = (- d123) * d234 * y4d;
          b1 = d123 * d234 * x4d;
          a2 = d134 * d234 * y2d;
          b2 = (- d134) * d234 * x2d;
          a0 = d11 * d123 * y4d + d22 * d134 * y2d;
          b0 = d11 * d123 * x4d + d22 * d134 * x2d;
          c0 = (- d123) * d124 * d134
      in Matrix3x3 a1 a2 a0 b1 b2 b0
                   ((- a1) * x1 - b1 * y1) ((- a2) * x1 - b2 * y1)
                   ((- a0) * x1 - b0 * y1 + c0))"

fun Matrix3x3_mulByVector3 :: "Matrix3x3 \<Rightarrow> Float32Vector3 \<Rightarrow> Float32Vector3" where
  "Matrix3x3_mulByVector3 (Matrix3x3 m11 m21 m31 m12 m22 m32 m13 m23 m33)
     (Float32Vector3 o1 o2 o3) =
     (let p1 = (m11 * o1) + (m12 * o2) + (m13 * o3);
          p2 = (m21 * o1) + (m22 * o2) + (m23 * o3);
          p3 = (m31 * o1) + (m32 * o2) + (m33 * o3)
      in Float32Vector3 p1 p2 p3)"

fun Matrix3x3_mulByMatrix3x3 :: "Matrix3x3 \<Rightarrow> Matrix3x3 \<Rightarrow> Matrix3x3" where
  "Matrix3x3_mulByMatrix3x3 (Matrix3x3 m11 m21 m31 m12 m22 m32 m13 m23 m33)
     (Matrix3x3 o11 o21 o31 o12 o22 o32 o13 o23 o33) =
     (let p11 = (m11 * o11) + (m12 * o21) + (m13 * o31);
          p21 = (m21 * o11) + (m22 * o21) + (m23 * o31);
          p31 = (m31 * o11) + (m32 * o21) + (m33 * o31);
          p12 = (m11 * o12) + (m12 * o22) + (m13 * o32);
          p22 = (m21 * o12) + (m22 * o22) + (m23 * o32);
          p32 = (m31 * o12) + (m32 * o22) + (m33 * o32);
          p13 = (m11 * o13) + (m12 * o23) + (m13 * o33);
          p23 = (m21 * o13) + (m22 * o23) + (m23 * o33);
          p33 = (m31 * o13) + (m32 * o23) + (m33 * o33)
      in Matrix3x3 p11 p21 p31 p12 p22 p32 p13 p23 p33)"

definition Matrix3x3_translate :: "Matrix3x3 \<Rightarrow> jsnum \<Rightarrow> jsnum \<Rightarrow> Matrix3x3" where
  "Matrix3x3_translate this tx ty =
     (let t = Matrix3x3_translation tx ty in Matrix3x3_mulByMatrix3x3 this t)"

definition Matrix3x3_scale :: "Matrix3x3 \<Rightarrow> jsnum \<Rightarrow> jsnum \<Rightarrow> Matrix3x3" where
  "Matrix3x3_scale this sx sy =
     (let s = Matrix3x3_scaling sx sy in Matrix3x3_mulByMatrix3x3 this s)"

definition Matrix3x3_rotate :: "Matrix3x3 \<Rightarrow> jsnum \<Rightarrow> Matrix3x3" where
  "Matrix3x3_rotate this radian =
     (let r = Matrix3x3_rotation radian in Matrix3x3_mulByMatrix3x3 this r)"

subsection \<open>Matrix4x4\<close>

definition Matrix4x4_identity :: Matrix4x4 where
  "Matrix4x4_identity =
     Matrix4x4 (Fin 1) (Fin 0) (Fin 0) (Fin 0) (Fin 0) (Fin 1) (Fin 0) (Fin 0)
               (Fin 0) (Fin 0) (Fin 1) (Fin 0) (Fin 0) (Fin 0) (Fin 0) (Fin 1)"

definition Matrix4x4_translation :: "jsnum \<Rightarrow> jsnum \<Rightarrow> jsnum \<Rightarrow> Matrix4x4" where
  "Matrix4x4_translation tx ty tz =
     Matrix4x4 (Fin 1) (Fin 0) (Fin 0) (Fin 0) (Fin 0) (Fin 1) (Fin 0) (Fin 0)
               (Fin 0) (Fin 0) (Fin 1) (Fin 0) tx ty tz (Fin 1)"

definition Matrix4x4_scaling :: "jsnum \<Rightarrow> jsnum \<Rightarrow> jsnum \<Rightarrow> Matrix4x4" where
  "Matrix4x4_scaling sx sy sz =
     Matrix4x4 sx (Fin 0) (Fin 0) (Fin 0) (Fin 0) sy (Fin 0) (Fin 0)
               (Fin 0) (Fin 0) sz (Fin 0) (Fin 0) (Fin 0) (Fin 0) (Fin 1)"

definition Matrix4x4_rotationX :: "jsnum \<Rightarrow> Matrix4x4" where
  "Matrix4x4_rotationX radian =
     (let sin = Math_sin radian;
          cos = Math_cos radian
      in Matrix4x4 (Fin 1) (Fin 0) (Fin 0) (Fin 0) (Fin 0) cos sin (Fin 0)
                   (Fin 0) (- sin) cos (Fin 0) (Fin 0) (Fin 0) (Fin 0) (Fin 1))"

definition Matrix4x4_rotationY :: "jsnum \<Rightarrow> Matrix4x4" where
  "Matrix4x4_rotationY radian =
     (let sin = Math_sin radian;
          cos = Math_cos radian
      in Matrix4x4 cos (Fin 0) (- sin) (Fin 0) (Fin 0) (Fin 1) (Fin 0) (Fin 0)
                   sin (Fin 0) cos (Fin 0) (Fin 0) (Fin 0) (Fin 0) (Fin 1))"

definition Matrix4x4_rotationZ :: "jsnum \<Rightarrow> Matrix4x4" where
  "Matrix4x4_rotationZ radian =
     (let sin = Math_sin radian;
          cos = Math_cos radian
      in Matrix4x4 cos sin (Fin 0) (Fin 0) (- sin) cos (Fin 0) (Fin 0)
                   (Fin 0) (Fin 0) (Fin 1) (Fin 0) (Fin 0) (Fin 0) (Fin 0) (Fin 1))"

definition Matrix4x4_lookAt ::
  "Float32Vector3 \<Rightarrow> Float32Vector3 \<Rightarrow> Float32Vector3 \<Rightarrow> Matrix4x4" where
  "Matrix4x4_lookAt cameraPosition lookAtPosition cameraUp =
     (let zAxis = Float32Vector3_normalize (Float32Vector3_sub cameraPosition lookAtPosition);
          xAxis = Float32Vector3_normalize (Float32Vector3_cross cameraUp zAxis);
          yAxis = Float32Vector3_normalize (Float32Vector3_cross zAxis xAxis)
      in Matrix4x4 (v3_x xAxis) (v3_x yAxis) (v3_x zAxis) (Fin 0)
                   (v3_y xAxis) (v3_y yAxis) (v3_y zAxis) (Fin 0)
                   (v3_z xAxis) (v3_z yAxis) (v3_z zAxis) (Fin 0)
                   (- Float32Vector3_dot cameraPosition xAxis)
                   (- Float32Vector3_dot cameraPosition yAxis)
                   (- Float32Vector3_dot cameraPosition zAxis) (Fin 1))"

text \<open>
  The argument objects of the projections.  The fields are \<^verbatim>\<open>top\<close>, \<^verbatim>\<open>bottom\<close>,
  \<^verbatim>\<open>left\<close>, \<^verbatim>\<open>right\<close>, \<^verbatim>\<open>near\<close>, \<^verbatim>\<open>far\<close> and \<^verbatim>\<open>fovYRadian\<close>, \<^verbatim>\<open>aspectRatio\<close>,
  \<^verbatim>\<open>near\<close>, \<^verbatim>\<open>far\<close>; the suffix tells the two records apart.
\<close>

record FrustumArgs =
  top_f :: jsnum
  bottom_f :: jsnum
  left_f :: jsnum
  right_f :: jsnum
  near_f :: jsnum
  far_f :: jsnum

record PerspectiveArgs =
  fovYRadian :: jsnum
  aspectRatio :: jsnum
  near_p :: jsnum
  far_p :: jsnum

definition Matrix4x4_frustum :: "FrustumArgs \<Rightarrow> Matrix4x4" where
  "Matrix4x4_frustum argsObject =
     (let top = top_f argsObject;
          bottom = bottom_f argsObject;
          left = left_f argsObject;
          right = right_f argsObject;
          near = near_f argsObject;
          far = far_f argsObject
      in Matrix4x4 (Fin 2 * near / (right - left)) (Fin 0) (Fin 0) (Fin 0)
                   (Fin 0) (Fin 2 * near / (top - bottom)) (Fin 0) (Fin 0)
                   ((right + left) / (right - left)) ((top + bottom) / (top - bottom))
                   ((- (far + near)) / (far - near)) (- Fin 1)
                   (Fin 0) (Fin 0) ((- Fin 2) * far * near / (far - near)) (Fin 0))"

definition Matrix4x4_perspective :: "PerspectiveArgs \<Rightarrow> Matrix4x4" where
  "Matrix4x4_perspective argsObject =
     (let top = near_p argsObject * Math_tan (fovYRadian argsObject * Fin 0.5);
          height = top * Fin 2;
          width = aspectRatio argsObject * height;
          left = (- Fin 0.5) * width;
          right = left + width;
          bottom = top - height
      in Matrix4x4_frustum
           \<lparr>top_f = top, bottom_f = bottom, left_f = left, right_f = right,
            near_f = near_p argsObject, far_f = far_p argsObject\<rparr>)"

fun Matrix4x4_mulByVector4 :: "Matrix4x4 \<Rightarrow> Float32Vector4 \<Rightarrow> Float32Vector4" where
  "Matrix4x4_mulByVector4
     (Matrix4x4 m11 m21 m31 m41 m12 m22 m32 m42 m13 m23 m33 m43 m14 m24 m34 m44)
     (Float32Vector4 o1 o2 o3 o4) =
     (let p1 = (m11 * o1) + (m12 * o2) + (m13 * o3) + (m14 * o4);
          p2 = (m21 * o1) + (m22 * o2) + (m23 * o3) + (m24 * o4);
          p3 = (m31 * o1) + (m32 * o2) + (m33 * o3) + (m34 * o4);
          p4 = (m41 * o1) + (m42 * o2) + (m43 * o3) + (m44 * o4)
      in Float32Vector4 p1 p2 p3 p4)"

fun Matrix4x4_mulByMatrix4x4 :: "Matrix4x4 \<Rightarrow> Matrix4x4 \<Rightarrow> Matrix4x4" where
  "Matrix4x4_mulByMatrix4x4
     (Matrix4x4 m11 m21 m31 m41 m12 m22 m32 m42 m13 m23 m33 m43 m14 m24 m34 m44)
     (Matrix4x4 o11 o21 o31 o41 o12 o22 o32 o42 o13 o23 o33 o43 o14 o24 o34 o44) =
     (let p11 = (m11 * o11) + (m12 * o21) + (m13 * o31) + (m14 * o41);
          p21 = (m21 * o11) + (m22 * o21) + (m23 * o31) + (m24 * o41);
          p31 = (m31 * o11) + (m32 * o21) + (m33 * o31) + (m34 * o41);
          p41 = (m41 * o11) + (m42 * o21) + (m43 * o31) + (m44 * o41);
          p12 = (m11 * o12) + (m12 * o22) + (m13 * o32) + (m14 * o42);
          p22 = (m21 * o12) + (m22 * o22) + (m23 * o32) + (m24 * o42);
          p32 = (m31 * o12) + (m32 * o22) + (m33 * o32) + (m34 * o42);
          p42 = (m41 * o12) + (m42 * o22) + (m43 * o32) + (m44 * o42);
          p13 = (m11 * o13) + (m12 * o23) + (m13 * o33) + (m14 * o43);
          p23 = (m21 * o13) + (m22 * o23) + (m23 * o33) + (m24 * o43);
          p33 = (m31 * o13) + (m32 * o23) + (m33 * o33) + (m34 * o43);
          p43 = (m41 * o13) + (m42 * o23) + (m43 * o33) + (m44 * o43);
          p14 = (m11 * o14) + (m12 * o24) + (m13 * o34) + (m14 * o44);
          p24 = (m21 * o14) + (m22 * o24) + (m23 * o34) + (m24 * o44);
          p34 = (m31 * o14) + (m32 * o24) + (m33 * o34) + (m34 * o44);
          p44 = (m41 * o14) + (m42 * o24) + (m43 * o34) + (m44 * o44)
      in Matrix4x4 p11 p21 p31 p41 p12 p22 p32 p42 p13 p23 p33 p43 p14 p24 p34 p44)"

definition Matrix4x4_translate :: "Matrix4x4 \<Rightarrow> jsnum \<Rightarrow> jsnum \<Rightarrow> jsnum \<Rightarrow> Matrix4x4" where
  "Matrix4x4_translate this tx ty tz =
     (let t = Matrix4x4_translation tx ty tz in Matrix4x4_mulByMatrix4x4 this t)"

definition Matrix4x4_scale :: "Matrix4x4 \<Rightarrow> jsnum \<Rightarrow> jsnum \<Rightarrow> jsnum \<Rightarrow> Matrix4x4" where
  "Matrix4x4_scale this sx sy sz =
     (let s = Matrix4x4_scaling sx sy sz in Matrix4x4_mulByMatrix4x4 this s)"

definition Matrix4x4_rotateX :: "Matrix4x4 \<Rightarrow> jsnum \<Rightarrow> Matrix4x4" where
  "Matrix4x4_rotateX this radian =
     (let rx = Matrix4x4_rotationX radian in Matrix4x4_mulByMatrix4x4 this rx)"

definition Matrix4x4_rotateY :: "Matrix4x4 \<Rightarrow> jsnum \<Rightarrow> Matrix4x4" where
  "Matrix4x4_rotateY this radian =
     (let ry = Matrix4x4_rotationY radian in Matrix4x4_mulByMatrix4x4 this ry)"

definition Matrix4x4_rotateZ :: "Matrix4x4 \<Rightarrow> jsnum \<Rightarrow> Matrix4x4" where
  "Matrix4x4_rotateZ this radian =
     (let rz = Matrix4x4_rotationZ radian in Matrix4x4_mulByMatrix4x4 this rz)"


section \<open>Definitions that follow the specification\<close>

text \<open>
  The interpolation as the specification words it: the dot product \<open>d\<close>, the other
  quaternion and \<open>d\<close> negated when \<open>d < 0\<close>, \<open>omega = acos d\<close>, and the componentwise sum
  of \<open>q1\<close> scaled by \<open>sin ((1 - t) * omega) / sin omega\<close> and the other quaternion scaled
  by \<open>sin (t * omega) / sin omega\<close>.  It takes no options.
\<close>

definition slerp_spec :: "Quaternion \<Rightarrow> Quaternion \<Rightarrow> jsnum \<Rightarrow> Quaternion" where
  "slerp_spec q1 q2 t =
     (let d0 = Quaternion_dot q1 q2;
          q2' = (if js_lt d0 (Fin 0) then Quaternion_mulByScalar q2 (- Fin 1) else q2);
          d = (if js_lt d0 (Fin 0) then - d0 else d0);
          omega = Math_acos d;
          k1 = Math_sin ((Fin 1 - t) * omega) / Math_sin omega;
          k2 = Math_sin (t * omega) / Math_sin omega
      in Quaternion (qx q1 * k1 + qx q2' * k2) (qy q1 * k1 + qy q2' * k2)
                    (qz q1 * k1 + qz q2' * k2) (qw q1 * k1 + qw q2' * k2))"

text \<open>
  The four determinants \<open>d123\<close>, \<open>d124\<close>, \<open>d134\<close>, \<open>d234\<close> of a quadrilateral, as
  \<^verbatim>\<open>projectiveTransform\<close> and \<^verbatim>\<open>projectiveInvTransform\<close> both compute them in their
  first lines.
\<close>

definition quadrilateral_determinants ::
  "jsnum \<Rightarrow> jsnum \<Rightarrow> jsnum \<Rightarrow> jsnum \<Rightarrow> jsnum \<Rightarrow> jsnum \<Rightarrow> jsnum \<Rightarrow> jsnum \<Rightarrow> jsnum list" where
  "quadrilateral_determinants x1 y1 x2 y2 x3 y3 x4 y4 =
     (let x2d = x2 - x1;
          y2d = y2 - y1;
          x3d = x3 - x1;
          y3d = y3 - y1;
          x4d = x4 - x1;
          y4d = y4 - y1;
          d123 = x2d * y3d - x3d * y2d;
          d124 = x2d * y4d - x4d * y2d;
          d134 = x3d * y4d - x4d * y3d;
          d1234 = d123 + d134;
          d234 = d1234 - d124
      in [d123, d124, d134, d234])"

text \<open>
  The members of the three matrix classes, as the class bodies declare them: the
  static methods, and the methods and getters of the prototype.
\<close>

datatype MatrixClass = Matrix2x2_class | Matrix3x3_class | Matrix4x4_class

fun static_methods :: "MatrixClass \<Rightarrow> string list" where
  "static_methods Matrix2x2_class = [''identity'']"
| "static_methods Matrix3x3_class =
     [''identity'', ''translation'', ''scaling'', ''rotation'', ''projectiveTransform'',
      ''projectiveInvTransform'']"
| "static_methods Matrix4x4_class =
     [''identity'', ''translation'', ''scaling'', ''rotationX'', ''rotationY'', ''rotationZ'',
      ''rotationAround'', ''lookAt'', ''orthographic'', ''frustum'', ''perspective'']"

fun prototype_members :: "MatrixClass \<Rightarrow> string list" where
  "prototype_members Matrix2x2_class = [''values'', ''toString'']"
| "prototype_members Matrix3x3_class =
     [''mulByVector3'', ''mulByMatrix3x3'', ''mulByMatrix3'', ''translate'', ''scale'',
      ''rotate'', ''values'', ''toString'']"
| "prototype_members Matrix4x4_class =
     [''mulByVector4'', ''mulByMatrix4x4'', ''mulByMatrix4'', ''translate'', ''scale'',
      ''rotateX'', ''rotateY'', ''rotateZ'', ''rotateAround'', ''values'', ''toString'']"

text \<open>
  The two products the specification names for a matrix of dimension \<open>N\<close>:
  \<^verbatim>\<open>mulByMatrixNxN\<close> and \<^verbatim>\<open>mulByVectorN\<close>.
\<close>

fun dimension_digit :: "MatrixClass \<Rightarrow> string" where
  "dimension_digit Matrix2x2_class = ''2''"
| "dimension_digit Matrix3x3_class = ''3''"
| "dimension_digit Matrix4x4_class = ''4''"

definition provides_matrix_product :: "MatrixClass \<Rightarrow> bool" where
  "provides_matrix_product c =
     (''mulByMatrix'' @ dimension_digit c @ ''x'' @ dimension_digit c
        \<in> set (prototype_members c))"

definition provides_vector_product :: "MatrixClass \<Rightarrow> bool" where
  "provides_vector_product c =
     (''mulByVector'' @ dimension_digit c \<in> set (prototype_members c))"

section \<open>Arithmetic of the number model\<close>

lemmas jsnum_arith_defs =
  plus_jsnum_def minus_jsnum_def uminus_jsnum_def times_jsnum_def divide_jsnum_def

lemma Fin_add [simp]: "Fin a + Fin b = Fin (a + b)"
  by (simp add: plus_jsnum_def)

lemma Fin_sub [simp]: "Fin a - Fin b = Fin (a - b)"
  by (simp add: minus_jsnum_def)

lemma Fin_mul [simp]: "Fin a * Fin b = Fin (a * b)"
  by (simp add: times_jsnum_def)

lemma Fin_neg [simp]: "- Fin a = Fin (- a)"
  by (simp add: uminus_jsnum_def)

lemma Fin_div: "Fin a / Fin b = (if b \<noteq> 0 then Fin (a / b) else if a = 0 then NaN else inf_of (0 < a))"
  by (simp add: divide_jsnum_def)

lemma inf_of_pos: "b \<noteq> 0 \<Longrightarrow> inf_of (0 \<le> b) = inf_of (0 < b)" for b :: real
  by (simp add: less_le)

lemma mul_reciprocal: "x * (Fin 1 / m) = x / m"
  by (cases x; cases m)
     (auto simp: times_jsnum_def divide_jsnum_def zero_less_divide_iff divide_less_0_iff
        inf_of_pos)

lemma sumsq3_nonneg: "\<not> a * a + b * b + c * c < 0" for a b c :: real
  unfolding not_less by (intro add_nonneg_nonneg zero_le_square)

lemma sumsq3_zero: "a * a + b * b + c * c = 0 \<longleftrightarrow> a = 0 \<and> b = 0 \<and> c = 0" for a b c :: real
proof -
  have "a * a + b * b + c * c = 0 \<longleftrightarrow> a * a + b * b = 0 \<and> c * c = 0"
    by (intro add_nonneg_eq_0_iff add_nonneg_nonneg zero_le_square)
  also have "a * a + b * b = 0 \<longleftrightarrow> a * a = 0 \<and> b * b = 0"
    by (intro add_nonneg_eq_0_iff zero_le_square)
  finally show ?thesis by simp
qed

lemma sumsq4_nonneg: "\<not> a * a + b * b + c * c + d * d < 0" for a b c d :: real
  unfolding not_less by (intro add_nonneg_nonneg zero_le_square)

lemma sumsq4_zero:
  "a * a + b * b + c * c + d * d = 0 \<longleftrightarrow> a = 0 \<and> b = 0 \<and> c = 0 \<and> d = 0" for a b c d :: real
proof -
  have "a * a + b * b + c * c + d * d = 0 \<longleftrightarrow> a * a + b * b + c * c = 0 \<and> d * d = 0"
    by (intro add_nonneg_eq_0_iff add_nonneg_nonneg zero_le_square)
  then show ?thesis by (simp add: sumsq3_zero)
qed

lemma Float32Vector3_magnitude_zero:
  "js_seq (Float32Vector3_magnitude v) (Fin 0) \<longleftrightarrow> v = Float32Vector3 (Fin 0) (Fin 0) (Fin 0)"
proof (cases v)
  case (Float32Vector3 x y z)
  show ?thesis
    unfolding Float32Vector3
    by (cases x; cases y; cases z)
       (simp_all add: Float32Vector3_magnitude_def VectorBase_magnitude_def js_seq_def
          plus_jsnum_def times_jsnum_def sumsq3_zero sumsq3_nonneg)
qed

lemma Quaternion_magnitude_zero:
  "js_seq (Quaternion_magnitude q) (Fin 0) \<longleftrightarrow> q = Quaternion (Fin 0) (Fin 0) (Fin 0) (Fin 0)"
proof (cases q)
  case (Quaternion x y z w)
  show ?thesis
    unfolding Quaternion
    by (cases x; cases y; cases z; cases w)
       (simp_all add: Quaternion_magnitude_def js_seq_def
          plus_jsnum_def times_jsnum_def sumsq4_zero sumsq4_nonneg)
qed

lemma isInfinity_inf_of: "isInfinity (inf_of b)"
  by (cases b) simp_all

lemma div_zero_special: "isNaN (x / Fin 0) \<or> isInfinity (x / Fin 0)"
  by (cases x) (simp_all add: divide_jsnum_def isInfinity_inf_of)

lemma isFinite_iff: "isFinite x \<longleftrightarrow> (\<exists>r. x = Fin r)"
  by (cases x) simp_all

section \<open>Properties\<close>

text \<open>
  C1.  For all quaternions \<open>q1\<close>, \<open>q2\<close> and every scalar \<open>t\<close>, \<^verbatim>\<open>q1.slerp(q2, t, options)\<close> is
  the interpolation of the specification: with \<open>d = q1.dot(q2)\<close>, the other quaternion and
  \<open>d\<close> negated when \<open>d < 0\<close>, and \<open>omega = acos d\<close>, it is componentwise
  \<open>q1 * (sin ((1 - t) * omega) / sin omega) + q2' * (sin (t * omega) / sin omega)\<close>.  The
  result is the same for every value of the options, given or left out.
\<close>

theorem slerp_formula:
  "Quaternion_slerp q1 q2 t options = slerp_spec q1 q2 t \<and>
   Quaternion_slerp q1 q2 t options = Quaternion_slerp q1 q2 t options'"
  by (simp add: Quaternion_slerp_def slerp_spec_def Let_def Quaternion_add_def
        Quaternion_mulByScalar_def)

text \<open>
  C2.  The round trip through \<^verbatim>\<open>projectiveTransform\<close> and \<^verbatim>\<open>projectiveInvTransform\<close> at
  the quadrilateral \<open>(0,0), (4,0), (3,2), (1,2)\<close>, whose determinants \<open>d123, d124, d134,
  d234\<close> are \<open>8, 8, 4, 4\<close>.  The corner \<open>(0,1)\<close> of the unit square goes to \<open>(8,16,8)\<close>, the
  point \<open>(1,2)\<close> of the quadrilateral, and comes back as \<open>(0, 1/3)\<close>; the centre
  \<open>(1/2, 1/2)\<close> comes back as \<open>(1/4, 1/4)\<close>.
\<close>

theorem projectiveInvTransform_not_inverse:
  "quadrilateral_determinants (Fin 0) (Fin 0) (Fin 4) (Fin 0) (Fin 3) (Fin 2) (Fin 1) (Fin 2) =
     [Fin 8, Fin 8, Fin 4, Fin 4] \<and>
   Matrix3x3_mulByVector3
     (Matrix3x3_projectiveTransform (Fin 0) (Fin 0) (Fin 4) (Fin 0) (Fin 3) (Fin 2) (Fin 1) (Fin 2))
     (Float32Vector3 (Fin 0) (Fin 1) (Fin 1)) = Float32Vector3 (Fin 8) (Fin 16) (Fin 8) \<and>
   Float32Vector3_hom2cart
     (Matrix3x3_mulByVector3
        (Matrix3x3_projectiveInvTransform (Fin 0) (Fin 0) (Fin 4) (Fin 0) (Fin 3) (Fin 2) (Fin 1) (Fin 2))
        (Matrix3x3_mulByVector3
           (Matrix3x3_projectiveTransform (Fin 0) (Fin 0) (Fin 4) (Fin 0) (Fin 3) (Fin 2) (Fin 1) (Fin 2))
           (Float32Vector3 (Fin 0) (Fin 1) (Fin 1)))) = Float32Vector2 (Fin 0) (Fin (1 / 3)) \<and>
   Float32Vector3_xy (Float32Vector3 (Fin 0) (Fin 1) (Fin 1)) = Float32Vector2 (Fin 0) (Fin 1) \<and>
   Float32Vector3_hom2cart
     (Matrix3x3_mulByVector3
        (Matrix3x3_projectiveInvTransform (Fin 0) (Fin 0) (Fin 4) (Fin 0) (Fin 3) (Fin 2) (Fin 1) (Fin 2))
        (Matrix3x3_mulByVector3
           (Matrix3x3_projectiveTransform (Fin 0) (Fin 0) (Fin 4) (Fin 0) (Fin 3) (Fin 2) (Fin 1) (Fin 2))
           (Float32Vector3 (Fin (1 / 2)) (Fin (1 / 2)) (Fin 1)))) =
     Float32Vector2 (Fin (1 / 4)) (Fin (1 / 4))"
  by (simp add: quadrilateral_determinants_def Matrix3x3_projectiveTransform_def
        Matrix3x3_projectiveInvTransform_def Float32Vector3_hom2cart_def Float32Vector3_xy_def
        Let_def Fin_div)

text \<open>
  C3.  \<^verbatim>\<open>Matrix4x4.lookAt(eye, target, up)\<close> with \<open>zAxis = normalize (eye - target)\<close>,
  \<open>xAxis = normalize (up \<times> zAxis)\<close> and \<open>yAxis = normalize (zAxis \<times> xAxis)\<close>: the first three
  rows of the matrix are \<open>xAxis\<close>, \<open>yAxis\<close>, \<open>zAxis\<close>, each followed by the negated dot
  product of \<open>eye\<close> with that axis; the fourth row is \<open>(0, 0, 0, 1)\<close>; the fourth column
  is the three negated dot products and 1.
\<close>

theorem lookAt_view_matrix:
  "(let zAxis = Float32Vector3_normalize (Float32Vector3_sub eye target);
        xAxis = Float32Vector3_normalize (Float32Vector3_cross up zAxis);
        yAxis = Float32Vector3_normalize (Float32Vector3_cross zAxis xAxis);
        m = Matrix4x4_lookAt eye target up
    in Matrix4x4_row m 0 =
         [v3_x xAxis, v3_y xAxis, v3_z xAxis, - Float32Vector3_dot eye xAxis] \<and>
       Matrix4x4_row m 1 =
         [v3_x yAxis, v3_y yAxis, v3_z yAxis, - Float32Vector3_dot eye yAxis] \<and>
       Matrix4x4_row m 2 =
         [v3_x zAxis, v3_y zAxis, v3_z zAxis, - Float32Vector3_dot eye zAxis] \<and>
       Matrix4x4_row m 3 = [Fin 0, Fin 0, Fin 0, Fin 1] \<and>
       Matrix4x4_column m 3 =
         [- Float32Vector3_dot eye xAxis, - Float32Vector3_dot eye yAxis,
          - Float32Vector3_dot eye zAxis, Fin 1])"
  by (simp add: Matrix4x4_lookAt_def Matrix4x4_row_def Matrix4x4_column_def Let_def)

text \<open>
  C4.  \<^verbatim>\<open>normalize\<close> of a \<^verbatim>\<open>Float32Vector3\<close> and of a \<^verbatim>\<open>Quaternion\<close>: when the magnitude
  is exactly zero (\<^verbatim>\<open>mag === 0\<close>) the receiver is returned as it is, and it is the zero
  value; when the magnitude is not zero the result is the receiver divided
  componentwise by its magnitude.  The zero quaternion normalizes to the values
  \<open>[0, 0, 0, 0]\<close>.
\<close>

theorem normalize_zero_guard:
  "(js_seq (Float32Vector3_magnitude v) (Fin 0) \<longrightarrow>
      Float32Vector3_normalize v = v \<and> v = Float32Vector3 (Fin 0) (Fin 0) (Fin 0)) \<and>
   (\<not> js_seq (Float32Vector3_magnitude v) (Fin 0) \<longrightarrow>
      Float32Vector3_normalize v =
        Float32Vector3 (v3_x v / Float32Vector3_magnitude v)
          (v3_y v / Float32Vector3_magnitude v) (v3_z v / Float32Vector3_magnitude v)) \<and>
   (js_seq (Quaternion_magnitude q) (Fin 0) \<longrightarrow>
      Quaternion_normalize q = q \<and> Quaternion_values q = [Fin 0, Fin 0, Fin 0, Fin 0]) \<and>
   (\<not> js_seq (Quaternion_magnitude q) (Fin 0) \<longrightarrow>
      Quaternion_normalize q =
        Quaternion (qx q / Quaternion_magnitude q) (qy q / Quaternion_magnitude q)
          (qz q / Quaternion_magnitude q) (qw q / Quaternion_magnitude q)) \<and>
   Quaternion_values (Quaternion_normalize (Quaternion (Fin 0) (Fin 0) (Fin 0) (Fin 0))) =
     [Fin 0, Fin 0, Fin 0, Fin 0]"
proof (intro conjI impI)
  assume z: "js_seq (Float32Vector3_magnitude v) (Fin 0)"
  then show "Float32Vector3_normalize v = v"
    by (simp add: Float32Vector3_normalize_def Let_def)
  from z show "v = Float32Vector3 (Fin 0) (Fin 0) (Fin 0)"
    by (simp add: Float32Vector3_magnitude_zero)
next
  assume "\<not> js_seq (Float32Vector3_magnitude v) (Fin 0)"
  then show "Float32Vector3_normalize v =
        Float32Vector3 (v3_x v / Float32Vector3_magnitude v)
          (v3_y v / Float32Vector3_magnitude v) (v3_z v / Float32Vector3_magnitude v)"
    by (simp add: Float32Vector3_normalize_def Let_def)
next
  assume z: "js_seq (Quaternion_magnitude q) (Fin 0)"
  then show "Quaternion_normalize q = q"
    by (simp add: Quaternion_normalize_def Let_def)
  from z have "q = Quaternion (Fin 0) (Fin 0) (Fin 0) (Fin 0)"
    by (simp add: Quaternion_magnitude_zero)
  then show "Quaternion_values q = [Fin 0, Fin 0, Fin 0, Fin 0]"
    by simp
next
  assume "\<not> js_seq (Quaternion_magnitude q) (Fin 0)"
  then show "Quaternion_normalize q =
        Quaternion (qx q / Quaternion_magnitude q) (qy q / Quaternion_magnitude q)
          (qz q / Quaternion_magnitude q) (qw q / Quaternion_magnitude q)"
    by (simp add: Quaternion_normalize_def Let_def mul_reciprocal)
next
  have "js_seq (Quaternion_magnitude (Quaternion (Fin 0) (Fin 0) (Fin 0) (Fin 0))) (Fin 0)"
    by (simp add: Quaternion_magnitude_zero)
  then show "Quaternion_values (Quaternion_normalize (Quaternion (Fin 0) (Fin 0) (Fin 0) (Fin 0))) =
     [Fin 0, Fin 0, Fin 0, Fin 0]"
    by (simp add: Quaternion_normalize_def Let_def)
qed

text \<open>
  C4, at concrete inputs: the zero vector and the zero quaternion (magnitude 0), and
  \<open>(0, 2, 0)\<close> and \<open>(0, 0, 0, 2)\<close> (magnitude 2).
\<close>

theorem normalize_zero_guard_witness:
  "js_seq (Float32Vector3_magnitude (Float32Vector3 (Fin 0) (Fin 0) (Fin 0))) (Fin 0) \<and>
   Float32Vector3_normalize (Float32Vector3 (Fin 0) (Fin 0) (Fin 0)) =
     Float32Vector3 (Fin 0) (Fin 0) (Fin 0) \<and>
   js_seq (Quaternion_magnitude (Quaternion (Fin 0) (Fin 0) (Fin 0) (Fin 0))) (Fin 0) \<and>
   Quaternion_normalize (Quaternion (Fin 0) (Fin 0) (Fin 0) (Fin 0)) =
     Quaternion (Fin 0) (Fin 0) (Fin 0) (Fin 0) \<and>
   \<not> js_seq (Float32Vector3_magnitude (Float32Vector3 (Fin 0) (Fin 2) (Fin 0))) (Fin 0) \<and>
   Float32Vector3_normalize (Float32Vector3 (Fin 0) (Fin 2) (Fin 0)) =
     Float32Vector3 (Fin 0) (Fin 1) (Fin 0) \<and>
   \<not> js_seq (Quaternion_magnitude (Quaternion (Fin 0) (Fin 0) (Fin 0) (Fin 2))) (Fin 0) \<and>
   Quaternion_normalize (Quaternion (Fin 0) (Fin 0) (Fin 0) (Fin 2)) =
     Quaternion (Fin 0) (Fin 0) (Fin 0) (Fin 1)"
proof -
  have m3: "Float32Vector3_magnitude (Float32Vector3 (Fin 0) (Fin 2) (Fin 0)) = Fin 2"
    by (simp add: Float32Vector3_magnitude_def VectorBase_magnitude_def real_sqrt_abs2)
  have m4: "Quaternion_magnitude (Quaternion (Fin 0) (Fin 0) (Fin 0) (Fin 2)) = Fin 2"
    by (simp add: Quaternion_magnitude_def real_sqrt_abs2)
  have z3: "Float32Vector3_magnitude (Float32Vector3 (Fin 0) (Fin 0) (Fin 0)) = Fin 0"
    by (simp add: Float32Vector3_magnitude_def VectorBase_magnitude_def)
  have z4: "Quaternion_magnitude (Quaternion (Fin 0) (Fin 0) (Fin 0) (Fin 0)) = Fin 0"
    by (simp add: Quaternion_magnitude_def)
  show ?thesis
    using normalize_zero_guard [of "Float32Vector3 (Fin 0) (Fin 0) (Fin 0)"
            "Quaternion (Fin 0) (Fin 0) (Fin 0) (Fin 0)"]
          normalize_zero_guard [of "Float32Vector3 (Fin 0) (Fin 2) (Fin 0)"
            "Quaternion (Fin 0) (Fin 0) (Fin 0) (Fin 2)"]
    by (simp add: m3 m4 z3 z4 js_seq_def Fin_div)
qed

text \<open>
  C5.  \<^verbatim>\<open>Matrix4x4.perspective\<close> is \<^verbatim>\<open>Matrix4x4.frustum\<close> at
  \<open>top = near * tan (fovYRadian * 0.5)\<close>, \<open>height = 2 * top\<close>,
  \<open>width = aspectRatio * height\<close>, \<open>left = - 0.5 * width\<close>, \<open>right = left + width\<close>,
  \<open>bottom = top - height\<close>, for all arguments.  When \<open>top\<close> and the aspect ratio are
  finite, \<open>bottom = - top\<close> and \<open>right = - left = aspectRatio * top\<close>.
\<close>

theorem perspective_delegates_to_frustum:
  "(let top = near_p a * Math_tan (fovYRadian a * Fin 0.5);
        height = Fin 2 * top;
        width = aspectRatio a * height;
        left = (- Fin 0.5) * width;
        right = left + width;
        bottom = top - height
    in Matrix4x4_perspective a =
         Matrix4x4_frustum \<lparr>top_f = top, bottom_f = bottom, left_f = left, right_f = right,
                            near_f = near_p a, far_f = far_p a\<rparr> \<and>
       (isFinite top \<and> isFinite (aspectRatio a) \<longrightarrow>
          bottom = - top \<and> right = - left \<and> right = aspectRatio a * top))"
proof -
  have comm: "x * Fin 2 = Fin 2 * x" for x
    by (cases x) (simp_all add: times_jsnum_def mult.commute)
  show ?thesis
    by (auto simp: Matrix4x4_perspective_def Let_def comm isFinite_iff)
qed

text \<open>
  C5, at \<open>fovYRadian = \<pi>/2\<close>, \<open>aspectRatio = 2\<close>, \<open>near = 1\<close>, \<open>far = 3\<close>: \<open>top = 1\<close>,
  \<open>bottom = - 1\<close>, \<open>left = - 2\<close>, \<open>right = 2\<close>.
\<close>

theorem perspective_delegates_to_frustum_witness:
  "isFinite (Fin 1 * Math_tan (Fin (pi / 2) * Fin 0.5)) \<and> isFinite (Fin 2) \<and>
   Matrix4x4_perspective
     \<lparr>fovYRadian = Fin (pi / 2), aspectRatio = Fin 2, near_p = Fin 1, far_p = Fin 3\<rparr> =
   Matrix4x4_frustum
     \<lparr>top_f = Fin 1, bottom_f = Fin (- 1), left_f = Fin (- 2), right_f = Fin 2,
      near_f = Fin 1, far_f = Fin 3\<rparr>"
proof -
  have t: "Math_tan (Fin (pi / 2) * Fin 0.5) = Fin 1"
    by (simp add: tan_45 cos_45)
  show ?thesis
    using perspective_delegates_to_frustum
      [of "\<lparr>fovYRadian = Fin (pi / 2), aspectRatio = Fin 2, near_p = Fin 1, far_p = Fin 3\<rparr>"]
    by (simp add: Let_def tan_45 cos_45)
qed

text \<open>
  C6.  The composition helpers multiply on the right by the matrix of the factory:
  \<^verbatim>\<open>translate\<close>, \<^verbatim>\<open>scale\<close>, \<^verbatim>\<open>rotateX\<close>, \<^verbatim>\<open>rotateY\<close>, \<^verbatim>\<open>rotateZ\<close> of \<^verbatim>\<open>Matrix4x4\<close> and
  \<^verbatim>\<open>translate\<close>, \<^verbatim>\<open>scale\<close>, \<^verbatim>\<open>rotate\<close> of \<^verbatim>\<open>Matrix3x3\<close>.
\<close>

theorem composition_helpers_right_multiply:
  "Matrix4x4_translate A tx ty tz = Matrix4x4_mulByMatrix4x4 A (Matrix4x4_translation tx ty tz) \<and>
   Matrix4x4_scale A sx sy sz = Matrix4x4_mulByMatrix4x4 A (Matrix4x4_scaling sx sy sz) \<and>
   Matrix4x4_rotateX A radian = Matrix4x4_mulByMatrix4x4 A (Matrix4x4_rotationX radian) \<and>
   Matrix4x4_rotateY A radian = Matrix4x4_mulByMatrix4x4 A (Matrix4x4_rotationY radian) \<and>
   Matrix4x4_rotateZ A radian = Matrix4x4_mulByMatrix4x4 A (Matrix4x4_rotationZ radian) \<and>
   Matrix3x3_translate B tx ty = Matrix3x3_mulByMatrix3x3 B (Matrix3x3_translation tx ty) \<and>
   Matrix3x3_scale B sx sy = Matrix3x3_mulByMatrix3x3 B (Matrix3x3_scaling sx sy) \<and>
   Matrix3x3_rotate B radian = Matrix3x3_mulByMatrix3x3 B (Matrix3x3_rotation radian)"
  by (simp add: Matrix4x4_translate_def Matrix4x4_scale_def Matrix4x4_rotateX_def
        Matrix4x4_rotateY_def Matrix4x4_rotateZ_def Matrix3x3_translate_def
        Matrix3x3_scale_def Matrix3x3_rotate_def)

text \<open>
  C7.  For a \<^verbatim>\<open>Matrix3x3\<close> and a \<^verbatim>\<open>Matrix4x4\<close> whose entries are all finite, the product
  with the identity on the left and on the right is the matrix itself.
\<close>

theorem identity_laws:
  "Matrix3x3_mulByMatrix3x3 Matrix3x3_identity
     (Matrix3x3 (Fin a11) (Fin a21) (Fin a31) (Fin a12) (Fin a22) (Fin a32)
        (Fin a13) (Fin a23) (Fin a33)) =
     Matrix3x3 (Fin a11) (Fin a21) (Fin a31) (Fin a12) (Fin a22) (Fin a32)
        (Fin a13) (Fin a23) (Fin a33) \<and>
   Matrix3x3_mulByMatrix3x3
     (Matrix3x3 (Fin a11) (Fin a21) (Fin a31) (Fin a12) (Fin a22) (Fin a32)
        (Fin a13) (Fin a23) (Fin a33)) Matrix3x3_identity =
     Matrix3x3 (Fin a11) (Fin a21) (Fin a31) (Fin a12) (Fin a22) (Fin a32)
        (Fin a13) (Fin a23) (Fin a33) \<and>
   Matrix4x4_mulByMatrix4x4 Matrix4x4_identity
     (Matrix4x4 (Fin b11) (Fin b21) (Fin b31) (Fin b41) (Fin b12) (Fin b22) (Fin b32) (Fin b42)
        (Fin b13) (Fin b23) (Fin b33) (Fin b43) (Fin b14) (Fin b24) (Fin b34) (Fin b44)) =
     Matrix4x4 (Fin b11) (Fin b21) (Fin b31) (Fin b41) (Fin b12) (Fin b22) (Fin b32) (Fin b42)
        (Fin b13) (Fin b23) (Fin b33) (Fin b43) (Fin b14) (Fin b24) (Fin b34) (Fin b44) \<and>
   Matrix4x4_mulByMatrix4x4
     (Matrix4x4 (Fin b11) (Fin b21) (Fin b31) (Fin b41) (Fin b12) (Fin b22) (Fin b32) (Fin b42)
        (Fin b13) (Fin b23) (Fin b33) (Fin b43) (Fin b14) (Fin b24) (Fin b34) (Fin b44))
     Matrix4x4_identity =
     Matrix4x4 (Fin b11) (Fin b21) (Fin b31) (Fin b41) (Fin b12) (Fin b22) (Fin b32) (Fin b42)
        (Fin b13) (Fin b23) (Fin b33) (Fin b43) (Fin b14) (Fin b24) (Fin b34) (Fin b44)"
  by (simp add: Matrix3x3_identity_def Matrix4x4_identity_def)

text \<open>
  C8.  Division by zero is not guarded outside \<^verbatim>\<open>normalize\<close>.  When the dot product of
  \<open>q1\<close> and \<open>q2\<close> is 1 or -1, every component of \<^verbatim>\<open>q1.slerp(q2, t)\<close> is NaN, for every
  \<open>t\<close>.  \<^verbatim>\<open>hom2cart\<close> of a \<^verbatim>\<open>Float32Vector3\<close> with \<open>z = 0\<close> and of a \<^verbatim>\<open>Float32Vector4\<close>
  with \<open>w = 0\<close> has only components that are NaN or an infinity.
\<close>

theorem division_by_zero_propagates:
  "(Quaternion_dot q1 q2 = Fin 1 \<or> Quaternion_dot q1 q2 = Fin (- 1) \<longrightarrow>
      Quaternion_values (Quaternion_slerp q1 q2 t options) = [NaN, NaN, NaN, NaN]) \<and>
   (v3_z v = Fin 0 \<longrightarrow>
      list_all (\<lambda>c. isNaN c \<or> isInfinity c)
        (Float32Vector2_values (Float32Vector3_hom2cart v))) \<and>
   (v4_w u = Fin 0 \<longrightarrow>
      list_all (\<lambda>c. isNaN c \<or> isInfinity c)
        (Float32Vector3_values (Float32Vector4_hom2cart u)))"
proof (intro conjI impI)
  have sc: "Math_sin (s * Fin 0) / Fin 0 = NaN" for s
    by (cases s) (simp_all add: times_jsnum_def divide_jsnum_def)
  have mulNaN: "x * NaN = NaN" for x
    by (cases x) (simp_all add: times_jsnum_def)
  assume "Quaternion_dot q1 q2 = Fin 1 \<or> Quaternion_dot q1 q2 = Fin (- 1)"
  then show "Quaternion_values (Quaternion_slerp q1 q2 t options) = [NaN, NaN, NaN, NaN]"
    by (auto simp: Quaternion_slerp_def Let_def sc mulNaN Quaternion_add_def
          Quaternion_mulByScalar_def plus_jsnum_def)
next
  assume "v3_z v = Fin 0"
  then show "list_all (\<lambda>c. isNaN c \<or> isInfinity c)
        (Float32Vector2_values (Float32Vector3_hom2cart v))"
    by (simp add: Float32Vector3_hom2cart_def div_zero_special)
next
  assume "v4_w u = Fin 0"
  then show "list_all (\<lambda>c. isNaN c \<or> isInfinity c)
        (Float32Vector3_values (Float32Vector4_hom2cart u))"
    by (simp add: Float32Vector4_hom2cart_def div_zero_special)
qed

text \<open>
  C8, at the unit quaternions \<open>(0, 0, 0, 1)\<close> and \<open>(0, 0, 0, -1)\<close> with dot product -1,
  and at the vectors \<open>(1, 0, 0)\<close> and \<open>(1, 0, -1, 0)\<close>.
\<close>

theorem division_by_zero_propagates_witness:
  "Quaternion_dot (Quaternion (Fin 0) (Fin 0) (Fin 0) (Fin 1))
     (Quaternion (Fin 0) (Fin 0) (Fin 0) (Fin (- 1))) = Fin (- 1) \<and>
   Quaternion_magnitude (Quaternion (Fin 0) (Fin 0) (Fin 0) (Fin 1)) = Fin 1 \<and>
   Quaternion_magnitude (Quaternion (Fin 0) (Fin 0) (Fin 0) (Fin (- 1))) = Fin 1 \<and>
   Quaternion_values
     (Quaternion_slerp (Quaternion (Fin 0) (Fin 0) (Fin 0) (Fin 1))
        (Quaternion (Fin 0) (Fin 0) (Fin 0) (Fin (- 1))) (Fin 0.5) None) =
     [NaN, NaN, NaN, NaN] \<and>
   v3_z (Float32Vector3 (Fin 1) (Fin 0) (Fin 0)) = Fin 0 \<and>
   Float32Vector3_hom2cart (Float32Vector3 (Fin 1) (Fin 0) (Fin 0)) = Float32Vector2 PInf NaN \<and>
   v4_w (Float32Vector4 (Fin 1) (Fin 0) (Fin (- 1)) (Fin 0)) = Fin 0 \<and>
   Float32Vector4_hom2cart (Float32Vector4 (Fin 1) (Fin 0) (Fin (- 1)) (Fin 0)) =
     Float32Vector3 PInf NaN NInf"
proof -
  have d: "Quaternion_dot (Quaternion (Fin 0) (Fin 0) (Fin 0) (Fin 1))
     (Quaternion (Fin 0) (Fin 0) (Fin 0) (Fin (- 1))) = Fin (- 1)"
    by (simp add: Quaternion_dot_def)
  have h: "Float32Vector3_hom2cart (Float32Vector3 (Fin 1) (Fin 0) (Fin 0)) = Float32Vector2 PInf NaN"
     "Float32Vector4_hom2cart (Float32Vector4 (Fin 1) (Fin 0) (Fin (- 1)) (Fin 0)) =
     Float32Vector3 PInf NaN NInf"
    by (simp_all add: Float32Vector3_hom2cart_def Float32Vector4_hom2cart_def Fin_div)
  show ?thesis
    using division_by_zero_propagates
      [of "Quaternion (Fin 0) (Fin 0) (Fin 0) (Fin 1)"
          "Quaternion (Fin 0) (Fin 0) (Fin 0) (Fin (- 1))" "Fin 0.5" None
          "Float32Vector3 (Fin 1) (Fin 0) (Fin 0)"
          "Float32Vector4 (Fin 1) (Fin 0) (Fin (- 1)) (Fin 0)"] d
    by (simp add: h Quaternion_magnitude_def)
qed

text \<open>
  C9, as stated, fails: \<^verbatim>\<open>Matrix2x2\<close> has neither \<^verbatim>\<open>mulByMatrix2x2\<close> nor \<^verbatim>\<open>mulByVector2\<close>.
\<close>

theorem Matrix2x2_has_no_products:
  "\<not> provides_matrix_product Matrix2x2_class \<and> \<not> provides_vector_product Matrix2x2_class"
  by (simp add: provides_matrix_product_def provides_vector_product_def)

text \<open>
  C9, amended.  \<^verbatim>\<open>Matrix3x3\<close> and \<^verbatim>\<open>Matrix4x4\<close> each have a matrix product and a vector
  product; \<^verbatim>\<open>Matrix2x2\<close> has the static method \<^verbatim>\<open>identity\<close> and the members \<^verbatim>\<open>values\<close> and
  \<^verbatim>\<open>toString\<close>, and nothing else.
\<close>

theorem matrix_classes_products:
  "provides_matrix_product Matrix3x3_class \<and> provides_vector_product Matrix3x3_class \<and>
   provides_matrix_product Matrix4x4_class \<and> provides_vector_product Matrix4x4_class \<and>
   static_methods Matrix2x2_class = [''identity''] \<and>
   prototype_members Matrix2x2_class = [''values'', ''toString'']"
  by (simp add: provides_matrix_product_def provides_vector_product_def)

text \<open>
  C10.  For finite \<open>eye\<close> and \<open>up\<close>, \<^verbatim>\<open>Matrix4x4.lookAt(eye, eye, up)\<close>: the three axes
  are the zero vector, every entry of the matrix is zero except the last, which is 1,
  and no entry is NaN.
\<close>

theorem lookAt_eye_at_target:
  "(let eye = Float32Vector3 (Fin ex) (Fin ey) (Fin ez);
        up = Float32Vector3 (Fin ux) (Fin uy) (Fin uz);
        zero = Float32Vector3 (Fin 0) (Fin 0) (Fin 0);
        zAxis = Float32Vector3_normalize (Float32Vector3_sub eye eye);
        xAxis = Float32Vector3_normalize (Float32Vector3_cross up zAxis);
        yAxis = Float32Vector3_normalize (Float32Vector3_cross zAxis xAxis)
    in zAxis = zero \<and> xAxis = zero \<and> yAxis = zero \<and>
       Matrix4x4_lookAt eye eye up =
         Matrix4x4 (Fin 0) (Fin 0) (Fin 0) (Fin 0) (Fin 0) (Fin 0) (Fin 0) (Fin 0)
                   (Fin 0) (Fin 0) (Fin 0) (Fin 0) (Fin 0) (Fin 0) (Fin 0) (Fin 1) \<and>
       list_all (\<lambda>c. \<not> isNaN c) (Matrix4x4_values (Matrix4x4_lookAt eye eye up)))"
proof -
  have n0: "Float32Vector3_normalize (Float32Vector3 (Fin 0) (Fin 0) (Fin 0)) =
      Float32Vector3 (Fin 0) (Fin 0) (Fin 0)"
    using Float32Vector3_magnitude_zero [of "Float32Vector3 (Fin 0) (Fin 0) (Fin 0)"]
    by (simp add: Float32Vector3_normalize_def)
  show ?thesis
    by (simp add: Let_def Matrix4x4_lookAt_def Float32Vector3_sub_def Float32Vector3_cross_def
          Float32Vector3_dot_def n0)
qed

end
